theory Spec2Isabelle
  imports Main
begin

section \<open>Data model (auth.service.ts)\<close>

text \<open>
  The TypeScript interfaces \<^verbatim>\<open>UserData\<close> and \<^verbatim>\<open>AuthError\<close> become records.
  The string union \<^verbatim>\<open>'user' | 'admin' | 'technician'\<close> is a datatype.  The
  fields \<^verbatim>\<open>createdAt\<close> and \<^verbatim>\<open>lastLoginAt\<close> have type \<^verbatim>\<open>any\<close>; the service only
  ever writes the \<^verbatim>\<open>serverTimestamp()\<close> sentinel into them and never reads them; a
  record that was already in the store may carry a concrete time.  Optional fields (\<^verbatim>\<open>photoURL\<close>, \<^verbatim>\<open>provider\<close>)
  are options, \<open>None\<close> standing for \<^verbatim>\<open>undefined\<close> and \<^verbatim>\<open>null\<close> alike.
\<close>

datatype Role = RoleUser | RoleAdmin | RoleTechnician

datatype Timestamp = ServerTimestamp | Stored nat

record UserData =
  uid :: string
  email :: string
  displayName :: string
  role :: Role
  createdAt :: Timestamp
  lastLoginAt :: Timestamp
  emailVerified :: bool
  photoURL :: "string option"
  provider :: "string option"

record AuthError =
  code :: string
  message :: string

text \<open>
  A failure value thrown by the identity provider or the document store.  Every
  \<^verbatim>\<open>throw\<close> that reaches \<^verbatim>\<open>handleAuthError\<close> comes from an awaited library call,
  which rejects with an error object; the only thing the service reads from it is
  \<^verbatim>\<open>error.code\<close>, which may be missing.
\<close>

record RawError =
  raw_code :: "string option"

text \<open>The provider-side user object (\<^verbatim>\<open>User\<close> of the auth library), as far as the service reads it.\<close>

record FireUser =
  fuid :: string
  femail :: "string option"
  fdisplayName :: "string option"
  femailVerified :: bool
  fphotoURL :: "string option"
  fproviderData :: "string list"

section \<open>ErrorTranslator: \<^verbatim>\<open>AuthService.handleAuthError\<close>\<close>

definition genericMessage :: string where
  "genericMessage = ''An unexpected error occurred. Please try again.''"

text \<open>
  The \<^verbatim>\<open>switch (error.code)\<close> compares with strict equality, first matching case
  wins, no case falls through; a missing code matches no case.
\<close>

definition switchMessage :: "string option \<Rightarrow> string" where
  "switchMessage c =
     (if c = Some ''auth/user-not-found'' then ''No account found with this email address.''
      else if c = Some ''auth/wrong-password'' then ''Incorrect password. Please try again.''
      else if c = Some ''auth/email-already-in-use'' then ''An account with this email already exists.''
      else if c = Some ''auth/weak-password'' then ''Password should be at least 6 characters long.''
      else if c = Some ''auth/invalid-email'' then ''Please enter a valid email address.''
      else if c = Some ''auth/user-disabled'' then ''This account has been disabled. Please contact support.''
      else if c = Some ''auth/too-many-requests'' then ''Too many failed attempts. Please try again later.''
      else if c = Some ''auth/network-request-failed'' then ''Network error. Please check your connection and try again.''
      else if c = Some ''auth/popup-closed-by-user'' then ''Sign-in was cancelled. Please try again.''
      else if c = Some ''auth/cancelled-popup-request'' then ''Only one popup request is allowed at a time.''
      else genericMessage)"

text \<open>
  JavaScript's \<^verbatim>\<open>s || d\<close> on an optional string: \<^verbatim>\<open>undefined\<close>, \<^verbatim>\<open>null\<close> and the
  empty string are falsy and give the default.
\<close>

definition orElse :: "string option \<Rightarrow> string \<Rightarrow> string" where
  "orElse s d = (case s of None \<Rightarrow> d | Some v \<Rightarrow> if v = [] then d else v)"

definition handleAuthError :: "RawError \<Rightarrow> AuthError" where
  "handleAuthError error =
     (let message = switchMessage (raw_code error)
      in \<lparr> code = orElse (raw_code error) ''unknown'', message = message \<rparr>)"

section \<open>AccessGuard evaluator (auth-guard.service.ts)\<close>

text \<open>
  Each guard takes the latest value of the session subject (\<^verbatim>\<open>take(1)\<close> on a
  behaviour subject) and maps it to a boolean; on the way it may call
  \<^verbatim>\<open>router.navigate(commands, extras)\<close>.  The navigation is returned beside the
  decision; the session is an argument only, so a guard cannot change it.
\<close>

record Navigation =
  commands :: "string list"
  queryParams :: "(string \<times> string) list"

definition AuthGuard_canActivate :: "string \<Rightarrow> UserData option \<Rightarrow> bool \<times> Navigation option" where
  "AuthGuard_canActivate state_url user =
     (case user of
        Some u \<Rightarrow>
          if \<not> emailVerified u \<and> provider u = Some ''email''
          then (False, Some \<lparr> commands = [''/verify-email''], queryParams = [] \<rparr>)
          else (True, None)
      | None \<Rightarrow>
          (False, Some \<lparr> commands = [''/login''], queryParams = [(''returnUrl'', state_url)] \<rparr>))"

definition GuestGuard_canActivate :: "UserData option \<Rightarrow> bool \<times> Navigation option" where
  "GuestGuard_canActivate user =
     (case user of
        Some u \<Rightarrow>
          if \<not> emailVerified u \<and> provider u = Some ''email''
          then (False, Some \<lparr> commands = [''/verify-email''], queryParams = [] \<rparr>)
          else (False, Some \<lparr> commands = [''/dashboard''], queryParams = [] \<rparr>)
      | None \<Rightarrow> (True, None))"

section \<open>The world the session manager runs in\<close>

text \<open>
  The mutable state: the fields of the \<^verbatim>\<open>AuthService\<close> instance
  (\<^verbatim>\<open>currentUserSubject\<close>, \<^verbatim>\<open>loadingSubject\<close>, \<^verbatim>\<open>emailVerificationCheckInterval\<close>),
  the provider's \<^verbatim>\<open>auth.currentUser\<close>, the \<^verbatim>\<open>users\<close> collection of the document
  store, the interval timers the scheduler currently holds, the navigations
  requested from the router and the number of verification emails the provider
  has dispatched.

  A timer handle is a positive number (or an object), hence always truthy; the
  handle field is \<open>None\<close> while it is \<^verbatim>\<open>undefined\<close> or \<^verbatim>\<open>null\<close>.
\<close>

record World =
  currentUserSubject :: "UserData option"
  loadingSubject :: bool
  emailVerificationCheckInterval :: "nat option"
  authCurrentUser :: "FireUser option"
  users :: "string \<rightharpoonup> UserData"
  timers :: "nat list"
  navigations :: "Navigation list"
  sentEmails :: nat

text \<open>
  What the collaborators answer during one call of a service method.  Each
  method awaits each kind of library call at most once, so one answer per kind
  fixes a run.  \<open>Inl\<close> or \<open>Some\<close> is the error the awaited promise rejects with.
\<close>

record Env =
  createUserWithEmailAndPassword_r :: "RawError + FireUser"
  signInWithEmailAndPassword_r :: "RawError + FireUser"
  signInWithPopup_r :: "RawError + FireUser"
  updateProfile_r :: "RawError option"
  sendEmailVerification_r :: "RawError option"
  reload_r :: "RawError + bool"
  signOut_r :: "RawError option"
  getDoc_r :: "RawError option"
  setDoc_r :: "RawError option"
  updateDoc_r :: "RawError option"

subsection \<open>Interval timers\<close>

text \<open>\<^verbatim>\<open>setInterval\<close> returns a handle that no live timer has; \<^verbatim>\<open>clearInterval\<close> drops it.\<close>

fun freshHandle :: "nat list \<Rightarrow> nat" where
  "freshHandle [] = 1"
| "freshHandle (h # hs) = max (Suc h) (freshHandle hs)"

definition setInterval :: "nat list \<Rightarrow> nat \<times> nat list" where
  "setInterval ts = (freshHandle ts, freshHandle ts # ts)"

definition clearInterval :: "nat \<Rightarrow> nat list \<Rightarrow> nat list" where
  "clearInterval h ts = removeAll h ts"

subsection \<open>UserDirectoryAdapter: the document store\<close>

text \<open>
  \<^verbatim>\<open>getDoc\<close> gives the stored record or none, \<^verbatim>\<open>setDoc\<close> overwrites,
  \<^verbatim>\<open>updateDoc\<close> patches an existing record and rejects when there is none.
\<close>

definition getDoc :: "Env \<Rightarrow> (string \<rightharpoonup> UserData) \<Rightarrow> string \<Rightarrow> RawError + UserData option" where
  "getDoc env us i = (case getDoc_r env of Some e \<Rightarrow> Inl e | None \<Rightarrow> Inr (us i))"

definition setDoc :: "Env \<Rightarrow> (string \<rightharpoonup> UserData) \<Rightarrow> string \<Rightarrow> UserData
    \<Rightarrow> RawError + (string \<rightharpoonup> UserData)" where
  "setDoc env us i d = (case setDoc_r env of Some e \<Rightarrow> Inl e | None \<Rightarrow> Inr (us(i \<mapsto> d)))"

definition updateDoc :: "Env \<Rightarrow> (string \<rightharpoonup> UserData) \<Rightarrow> string \<Rightarrow> (UserData \<Rightarrow> UserData)
    \<Rightarrow> RawError + (string \<rightharpoonup> UserData)" where
  "updateDoc env us i f =
     (case updateDoc_r env of
        Some e \<Rightarrow> Inl e
      | None \<Rightarrow>
          (case us i of
             None \<Rightarrow> Inl \<lparr> raw_code = Some ''not-found'' \<rparr>
           | Some d \<Rightarrow> Inr (us(i \<mapsto> f d))))"

text \<open>\<^verbatim>\<open>getUserData\<close>: a failed read is logged and gives \<^verbatim>\<open>null\<close>.\<close>

definition getUserData :: "Env \<Rightarrow> World \<Rightarrow> string \<Rightarrow> UserData option" where
  "getUserData env w i = (case getDoc env (users w) i of Inl e \<Rightarrow> None | Inr r \<Rightarrow> r)"

text \<open>\<^verbatim>\<open>saveUserData\<close>: a failed write is logged and thrown again.\<close>

definition saveUserData :: "Env \<Rightarrow> UserData \<Rightarrow> World \<Rightarrow> RawError + World" where
  "saveUserData env userData w =
     (case setDoc env (users w) (uid userData) userData of
        Inl e \<Rightarrow> Inl e
      | Inr us \<Rightarrow> Inr (w\<lparr> users := us \<rparr>))"

text \<open>\<^verbatim>\<open>updateLastLogin\<close>: a failed patch is logged and swallowed.\<close>

definition updateLastLogin :: "Env \<Rightarrow> string \<Rightarrow> World \<Rightarrow> World" where
  "updateLastLogin env i w =
     (case updateDoc env (users w) i (\<lambda>d. d\<lparr> lastLoginAt := ServerTimestamp \<rparr>) of
        Inl e \<Rightarrow> w
      | Inr us \<Rightarrow> w\<lparr> users := us \<rparr>)"

section \<open>SessionManager: the public operations of \<^verbatim>\<open>AuthService\<close>\<close>

text \<open>
  Every operation is modelled as one uninterrupted run: the code between two
  \<^verbatim>\<open>await\<close>s is sequential, and the spec assumes that operations on the session
  do not race.  The listener registered by \<^verbatim>\<open>initializeAuthState\<close> is a
  separate callback and is not interleaved with them.

  The \<^verbatim>\<open>try\<close> block of an operation returns the thrown value (\<open>Inl\<close>) or
  unit together with the world at that point; \<^verbatim>\<open>catch\<close> translates the thrown
  value and \<^verbatim>\<open>finally\<close> clears the loading flag.
\<close>

definition catchFinally :: "(RawError + unit) \<times> World \<Rightarrow> (AuthError + unit) \<times> World" where
  "catchFinally r =
     (case r of
        (Inl e, w) \<Rightarrow> (Inl (handleAuthError e), w\<lparr> loadingSubject := False \<rparr>)
      | (Inr u, w) \<Rightarrow> (Inr u, w\<lparr> loadingSubject := False \<rparr>))"

definition signUp_try :: "Env \<Rightarrow> string \<Rightarrow> string \<Rightarrow> string \<Rightarrow> World \<Rightarrow> (RawError + unit) \<times> World" where
  "signUp_try env mail password name w0 =
     (let w = w0\<lparr> loadingSubject := True \<rparr> in
      case createUserWithEmailAndPassword_r env of
        Inl e \<Rightarrow> (Inl e, w)
      | Inr user \<Rightarrow>
          let w1 = w\<lparr> authCurrentUser := Some user \<rparr> in
          (case updateProfile_r env of
             Some e \<Rightarrow> (Inl e, w1)
           | None \<Rightarrow>
               let w2 = w1\<lparr> authCurrentUser := Some (user\<lparr> fdisplayName := Some name \<rparr>) \<rparr> in
               (case sendEmailVerification_r env of
                  Some e \<Rightarrow> (Inl e, w2)
                | None \<Rightarrow>
                    let w3 = w2\<lparr> sentEmails := Suc (sentEmails w2) \<rparr>;
                        userData = \<lparr> uid = fuid user, email = orElse (femail user) [],
                                     displayName = name, role = RoleUser,
                                     createdAt = ServerTimestamp, lastLoginAt = ServerTimestamp,
                                     emailVerified = False, photoURL = None,
                                     provider = Some ''email'' \<rparr>
                    in (case saveUserData env userData w3 of
                          Inl e \<Rightarrow> (Inl e, w3)
                        | Inr w4 \<Rightarrow> (Inr (), w4\<lparr> currentUserSubject := Some userData \<rparr>)))))"

definition signUp :: "Env \<Rightarrow> string \<Rightarrow> string \<Rightarrow> string \<Rightarrow> World \<Rightarrow> (AuthError + unit) \<times> World" where
  "signUp env mail password name w = catchFinally (signUp_try env mail password name w)"

definition signIn_try :: "Env \<Rightarrow> string \<Rightarrow> string \<Rightarrow> World \<Rightarrow> (RawError + unit) \<times> World" where
  "signIn_try env mail password w0 =
     (let w = w0\<lparr> loadingSubject := True \<rparr> in
      case signInWithEmailAndPassword_r env of
        Inl e \<Rightarrow> (Inl e, w)
      | Inr user \<Rightarrow>
          let w1 = w\<lparr> authCurrentUser := Some user \<rparr>;
              w2 = updateLastLogin env (fuid user) w1
          in (case getUserData env w2 (fuid user) of
                Some userData \<Rightarrow>
                  (Inr (), w2\<lparr> currentUserSubject :=
                     Some (userData\<lparr> lastLoginAt := ServerTimestamp,
                                     emailVerified := femailVerified user \<rparr>) \<rparr>)
              | None \<Rightarrow> (Inr (), w2)))"

definition signIn :: "Env \<Rightarrow> string \<Rightarrow> string \<Rightarrow> World \<Rightarrow> (AuthError + unit) \<times> World" where
  "signIn env mail password w = catchFinally (signIn_try env mail password w)"

text \<open>
  The two social flows differ in the provider object handed to \<^verbatim>\<open>signInWithPopup\<close>
  and in the provider tag of a synthesised record; the tag is the parameter.
\<close>

definition signInWithPopup_try :: "string \<Rightarrow> Env \<Rightarrow> World \<Rightarrow> (RawError + unit) \<times> World" where
  "signInWithPopup_try tag env w0 =
     (let w = w0\<lparr> loadingSubject := True \<rparr> in
      case signInWithPopup_r env of
        Inl e \<Rightarrow> (Inl e, w)
      | Inr user \<Rightarrow>
          let w1 = w\<lparr> authCurrentUser := Some user \<rparr> in
          (case getUserData env w1 (fuid user) of
             None \<Rightarrow>
               let userData = \<lparr> uid = fuid user, email = orElse (femail user) [],
                                displayName = orElse (fdisplayName user) ''User'',
                                role = RoleUser,
                                createdAt = ServerTimestamp, lastLoginAt = ServerTimestamp,
                                emailVerified = femailVerified user,
                                photoURL = (case fphotoURL user of
                                              None \<Rightarrow> None
                                            | Some p \<Rightarrow> if p = [] then None else Some p),
                                provider = Some tag \<rparr>
               in (case saveUserData env userData w1 of
                     Inl e \<Rightarrow> (Inl e, w1)
                   | Inr w2 \<Rightarrow> (Inr (), w2\<lparr> currentUserSubject := Some userData \<rparr>))
           | Some found \<Rightarrow>
               let w2 = updateLastLogin env (fuid user) w1;
                   userData = found\<lparr> lastLoginAt := ServerTimestamp,
                                     emailVerified := femailVerified user \<rparr>
               in (Inr (), w2\<lparr> currentUserSubject := Some userData \<rparr>)))"

definition signInWithGoogle :: "Env \<Rightarrow> World \<Rightarrow> (AuthError + unit) \<times> World" where
  "signInWithGoogle env w = catchFinally (signInWithPopup_try ''google'' env w)"

definition signInWithFacebook :: "Env \<Rightarrow> World \<Rightarrow> (AuthError + unit) \<times> World" where
  "signInWithFacebook env w = catchFinally (signInWithPopup_try ''facebook'' env w)"

text \<open>\<^verbatim>\<open>sendEmailVerification\<close>: nothing to do without a user or for a verified one.\<close>

definition sendEmailVerification :: "Env \<Rightarrow> World \<Rightarrow> (AuthError + unit) \<times> World" where
  "sendEmailVerification env w =
     (case authCurrentUser w of
        None \<Rightarrow> (Inr (), w)
      | Some user \<Rightarrow>
          if \<not> femailVerified user
          then (case sendEmailVerification_r env of
                  Some e \<Rightarrow> (Inl (handleAuthError e), w)
                | None \<Rightarrow> (Inr (), w\<lparr> sentEmails := Suc (sentEmails w) \<rparr>))
          else (Inr (), w))"

text \<open>
  \<^verbatim>\<open>checkEmailVerification\<close> has no \<^verbatim>\<open>try\<close>: a rejected \<^verbatim>\<open>reload\<close> or
  \<^verbatim>\<open>updateDoc\<close> leaves the method as it is, untranslated.  \<^verbatim>\<open>reload\<close> re-reads
  the live verification flag into the provider's user object.
\<close>

definition checkEmailVerification :: "Env \<Rightarrow> World \<Rightarrow> (RawError + bool) \<times> World" where
  "checkEmailVerification env w =
     (case authCurrentUser w of
        None \<Rightarrow> (Inr False, w)
      | Some user0 \<Rightarrow>
          (case reload_r env of
             Inl e \<Rightarrow> (Inl e, w)
           | Inr live \<Rightarrow>
               let user = user0\<lparr> femailVerified := live \<rparr>;
                   w1 = w\<lparr> authCurrentUser := Some user \<rparr>;
                   isVerified = femailVerified user
               in if isVerified
                  then (case updateDoc env (users w1) (fuid user) (\<lambda>d. d\<lparr> emailVerified := True \<rparr>) of
                          Inl e \<Rightarrow> (Inl e, w1)
                        | Inr us \<Rightarrow>
                            let w2 = w1\<lparr> users := us \<rparr> in
                            (case currentUserSubject w2 of
                               Some currentUser \<Rightarrow>
                                 (Inr isVerified,
                                  w2\<lparr> currentUserSubject := Some (currentUser\<lparr> emailVerified := True \<rparr>) \<rparr>)
                             | None \<Rightarrow> (Inr isVerified, w2)))
                  else (Inr isVerified, w1)))"

definition stopEmailVerificationCheck :: "World \<Rightarrow> World" where
  "stopEmailVerificationCheck w =
     (case emailVerificationCheckInterval w of
        Some h \<Rightarrow> w\<lparr> timers := clearInterval h (timers w), emailVerificationCheckInterval := None \<rparr>
      | None \<Rightarrow> w)"

definition startEmailVerificationCheck :: "World \<Rightarrow> World" where
  "startEmailVerificationCheck w =
     (case setInterval (timers w) of
        (h, ts) \<Rightarrow> w\<lparr> timers := ts, emailVerificationCheckInterval := Some h \<rparr>)"

text \<open>
  One firing of the interval callback installed by \<^verbatim>\<open>startEmailVerificationCheck\<close>.
  The scheduler runs the callback of a timer only while it holds the timer; an
  error of the check rejects the callback's promise and changes nothing else.
\<close>

definition emailVerificationCheckTick :: "Env \<Rightarrow> nat \<Rightarrow> World \<Rightarrow> World" where
  "emailVerificationCheckTick env h w =
     (if h \<in> set (timers w)
      then (case checkEmailVerification env w of
              (Inl e, w1) \<Rightarrow> w1
            | (Inr isVerified, w1) \<Rightarrow>
                if isVerified
                then (let w2 = stopEmailVerificationCheck w1
                      in w2\<lparr> navigations := navigations w2 @ [\<lparr> commands = [''/dashboard''], queryParams = [] \<rparr>] \<rparr>)
                else w1)
      else w)"

definition signOut :: "Env \<Rightarrow> World \<Rightarrow> (AuthError + unit) \<times> World" where
  "signOut env w0 =
     (let w = stopEmailVerificationCheck w0 in
      case signOut_r env of
        Some e \<Rightarrow> (Inl (handleAuthError e), w)
      | None \<Rightarrow>
          let w1 = w\<lparr> authCurrentUser := None \<rparr>;
              w2 = w1\<lparr> currentUserSubject := None \<rparr>
          in (Inr (), w2\<lparr> navigations := navigations w2 @ [\<lparr> commands = [''/login''], queryParams = [] \<rparr>] \<rparr>))"

section \<open>VerificationPoller: the resend cooldown of \<^verbatim>\<open>VerifyEmailComponent\<close>\<close>

record VerifyEmailComponent =
  loading :: bool
  error :: "string option"
  resendCooldown :: int
  resendCooldownInterval :: "nat option"

definition stopResendCooldown :: "VerifyEmailComponent \<times> World \<Rightarrow> VerifyEmailComponent \<times> World" where
  "stopResendCooldown cw =
     (case cw of (c, w) \<Rightarrow>
        (case resendCooldownInterval c of
           Some h \<Rightarrow> (c\<lparr> resendCooldownInterval := None \<rparr>, w\<lparr> timers := clearInterval h (timers w) \<rparr>)
         | None \<Rightarrow> (c, w)))"

definition startResendCooldown :: "VerifyEmailComponent \<times> World \<Rightarrow> VerifyEmailComponent \<times> World" where
  "startResendCooldown cw =
     (case cw of (c, w) \<Rightarrow>
        (case setInterval (timers w) of
           (h, ts) \<Rightarrow> (c\<lparr> resendCooldownInterval := Some h \<rparr>, w\<lparr> timers := ts \<rparr>)))"

text \<open>
  One firing of the callback installed by \<^verbatim>\<open>startResendCooldown\<close> for the
  timer \<open>h\<close> (the scheduler fires it once per 1000 ms while it holds the timer).
\<close>

definition resendCooldownTick :: "nat \<Rightarrow> VerifyEmailComponent \<times> World \<Rightarrow> VerifyEmailComponent \<times> World" where
  "resendCooldownTick h cw =
     (case cw of (c, w) \<Rightarrow>
        if h \<in> set (timers w)
        then (let c1 = c\<lparr> resendCooldown := resendCooldown c - 1 \<rparr>
              in if resendCooldown c1 \<le> 0 then stopResendCooldown (c1, w) else (c1, w))
        else (c, w))"

text \<open>
  \<^verbatim>\<open>resendVerificationEmail\<close>.  \<^verbatim>\<open>showSuccessMessage\<close> only toggles a CSS class
  and is left out.  The error text is \<^verbatim>\<open>error.message || 'Failed to send ...'\<close>.
\<close>

definition resendVerificationEmail :: "Env \<Rightarrow> VerifyEmailComponent \<times> World \<Rightarrow> VerifyEmailComponent \<times> World" where
  "resendVerificationEmail env cw =
     (case cw of (c, w) \<Rightarrow>
        if resendCooldown c > 0 \<or> loading c then (c, w)
        else
          let c1 = c\<lparr> loading := True, error := None \<rparr> in
          (case sendEmailVerification env w of
             (Inr u, w1) \<Rightarrow>
               (case startResendCooldown (c1\<lparr> resendCooldown := 60 \<rparr>, w1) of
                  (c2, w2) \<Rightarrow> (c2\<lparr> loading := False \<rparr>, w2))
           | (Inl err, w1) \<Rightarrow>
               (c1\<lparr> error := Some (orElse (Some (message err)) ''Failed to send verification email''),
                    loading := False \<rparr>, w1)))"

section \<open>The spec's tables, for comparison with the code\<close>

text \<open>The message table of the error translator: one row per case of the switch.\<close>

definition messageTable :: "(string \<times> string) list" where
  "messageTable =
     [(''auth/user-not-found'', ''No account found with this email address.''),
      (''auth/wrong-password'', ''Incorrect password. Please try again.''),
      (''auth/email-already-in-use'', ''An account with this email already exists.''),
      (''auth/weak-password'', ''Password should be at least 6 characters long.''),
      (''auth/invalid-email'', ''Please enter a valid email address.''),
      (''auth/user-disabled'', ''This account has been disabled. Please contact support.''),
      (''auth/too-many-requests'', ''Too many failed attempts. Please try again later.''),
      (''auth/network-request-failed'', ''Network error. Please check your connection and try again.''),
      (''auth/popup-closed-by-user'', ''Sign-in was cancelled. Please try again.''),
      (''auth/cancelled-popup-request'', ''Only one popup request is allowed at a time.'')]"

text \<open>The redirect targets and the rows "Authenticated" and "Guest-only" of the policy table.\<close>

definition verifyEmailNav :: Navigation where
  "verifyEmailNav = \<lparr> commands = [''/verify-email''], queryParams = [] \<rparr>"

definition dashboardNav :: Navigation where
  "dashboardNav = \<lparr> commands = [''/dashboard''], queryParams = [] \<rparr>"

definition loginNav :: "string \<Rightarrow> Navigation" where
  "loginNav url = \<lparr> commands = [''/login''], queryParams = [(''returnUrl'', url)] \<rparr>"

definition unverifiedEmailProvider :: "UserData option \<Rightarrow> bool" where
  "unverifiedEmailProvider s =
     (case s of None \<Rightarrow> False | Some u \<Rightarrow> \<not> emailVerified u \<and> provider u = Some ''email'')"

definition Authenticated_allow :: "UserData option \<Rightarrow> bool" where
  "Authenticated_allow s =
     (case s of None \<Rightarrow> False | Some u \<Rightarrow> emailVerified u \<or> provider u \<noteq> Some ''email'')"

definition Authenticated_redirect :: "string \<Rightarrow> UserData option \<Rightarrow> Navigation" where
  "Authenticated_redirect url s = (if unverifiedEmailProvider s then verifyEmailNav else loginNav url)"

definition GuestOnly_allow :: "UserData option \<Rightarrow> bool" where
  "GuestOnly_allow s = (s = None)"

definition GuestOnly_redirect :: "UserData option \<Rightarrow> Navigation" where
  "GuestOnly_redirect s = (if unverifiedEmailProvider s then verifyEmailNav else dashboardNav)"

section \<open>Concrete runs\<close>

text \<open>
  The service right after construction, an identity the provider may answer
  with, collaborators that all succeed, and the world after Ann's sign-up.
\<close>

definition initialWorld :: World where
  "initialWorld = \<lparr> currentUserSubject = None, loadingSubject = True,
       emailVerificationCheckInterval = None, authCurrentUser = None, users = Map.empty,
       timers = [], navigations = [], sentEmails = 0 \<rparr>"

definition annIdentity :: FireUser where
  "annIdentity = \<lparr> fuid = ''u1'', femail = Some ''a@b.com'', fdisplayName = None,
       femailVerified = False, fphotoURL = None, fproviderData = [''password''] \<rparr>"

definition annRecord :: UserData where
  "annRecord = \<lparr> uid = ''u1'', email = ''a@b.com'', displayName = ''Ann'', role = RoleUser,
       createdAt = ServerTimestamp, lastLoginAt = ServerTimestamp, emailVerified = False,
       photoURL = None, provider = Some ''email'' \<rparr>"

definition allSucceed :: Env where
  "allSucceed = \<lparr> createUserWithEmailAndPassword_r = Inr annIdentity,
       signInWithEmailAndPassword_r = Inr annIdentity,
       signInWithPopup_r = Inr annIdentity,
       updateProfile_r = None, sendEmailVerification_r = None, reload_r = Inr True,
       signOut_r = None, getDoc_r = None, setDoc_r = None, updateDoc_r = None \<rparr>"

definition networkFailure :: RawError where
  "networkFailure = \<lparr> raw_code = Some ''auth/network-request-failed'' \<rparr>"

definition annSignedUp :: World where
  "annSignedUp = \<lparr> currentUserSubject = Some annRecord, loadingSubject = False,
       emailVerificationCheckInterval = None,
       authCurrentUser = Some (annIdentity\<lparr> fdisplayName := Some ''Ann'' \<rparr>),
       users = [''u1'' \<mapsto> annRecord],
       timers = [], navigations = [], sentEmails = 1 \<rparr>"

definition annPolling :: World where
  "annPolling = startEmailVerificationCheck annSignedUp"

definition idleComponent :: VerifyEmailComponent where
  "idleComponent = \<lparr> loading = False, error = None, resendCooldown = 0, resendCooldownInterval = None \<rparr>"

section \<open>Properties of a run\<close>

text \<open>
  What the spec asks of a sign-up or sign-in flow, as predicates on the world
  before the call and the call's outcome: the loading flag is cleared and a
  failed call leaves the session as it was; a successful call leaves a session.
\<close>

definition clearsLoading_keepsSessionOnFailure :: "World \<Rightarrow> (AuthError + unit) \<times> World \<Rightarrow> bool" where
  "clearsLoading_keepsSessionOnFailure w r =
     (\<not> loadingSubject (snd r)
      \<and> (case fst r of Inl e \<Rightarrow> currentUserSubject (snd r) = currentUserSubject w | Inr u \<Rightarrow> True))"

definition sessionPresentOnSuccess :: "(AuthError + unit) \<times> World \<Rightarrow> bool" where
  "sessionPresentOnSuccess r =
     (case fst r of Inl e \<Rightarrow> True | Inr u \<Rightarrow> currentUserSubject (snd r) \<noteq> None)"

text \<open>
  The component and the world \<open>n\<close> firings of the cooldown timer after a resend
  request made in \<open>(c, w)\<close>; the timer a resend starts has the handle
  \<open>freshHandle (timers w)\<close>.
\<close>

definition cooldownAfter :: "Env \<Rightarrow> VerifyEmailComponent \<Rightarrow> World \<Rightarrow> nat \<Rightarrow> VerifyEmailComponent \<times> World" where
  "cooldownAfter env c w n =
     (resendCooldownTick (freshHandle (timers w)) ^^ n) (resendVerificationEmail env (c, w))"

section \<open>Auxiliary facts\<close>

lemma signUp_example:
  "signUp allSucceed ''a@b.com'' ''Abc123'' ''Ann'' initialWorld = (Inr (), annSignedUp)"
  by (simp add: signUp_def signUp_try_def catchFinally_def allSucceed_def initialWorld_def
      annSignedUp_def annIdentity_def annRecord_def saveUserData_def setDoc_def orElse_def Let_def)

lemma orElse_nonempty: "d \<noteq> [] \<Longrightarrow> orElse s d \<noteq> []"
  by (simp add: orElse_def split: option.splits)

lemma switchMessage_nonempty: "switchMessage c \<noteq> []"
  by (simp add: switchMessage_def genericMessage_def)

lemma stop_session: "currentUserSubject (stopEmailVerificationCheck w) = currentUserSubject w"
  by (simp add: stopEmailVerificationCheck_def split: option.splits)

lemma stop_handle: "emailVerificationCheckInterval (stopEmailVerificationCheck w) = None"
  by (simp add: stopEmailVerificationCheck_def split: option.splits)

lemma stop_timer:
  "emailVerificationCheckInterval w = Some h \<Longrightarrow> h \<notin> set (timers (stopEmailVerificationCheck w))"
  by (simp add: stopEmailVerificationCheck_def clearInterval_def)

section \<open>ErrorTranslator\<close>

text \<open>
  C8.  The error translator returns a well-formed \<^verbatim>\<open>AuthError\<close> for every
  failure value: a code of the table keeps its code and gets the table's
  message, any other code gets the generic message, a missing code gives the
  code \<^verbatim>\<open>unknown\<close> (as does an empty one), and neither field is ever empty.
\<close>

theorem handleAuthError_translation:
  "(\<forall>(k, m) \<in> set messageTable. handleAuthError \<lparr> raw_code = Some k \<rparr> = \<lparr> code = k, message = m \<rparr>)
   \<and> (\<forall>k. k \<notin> fst ` set messageTable \<longrightarrow>
          message (handleAuthError \<lparr> raw_code = Some k \<rparr>) = genericMessage
          \<and> code (handleAuthError \<lparr> raw_code = Some k \<rparr>) = (if k = [] then ''unknown'' else k))
   \<and> handleAuthError \<lparr> raw_code = None \<rparr> = \<lparr> code = ''unknown'', message = genericMessage \<rparr>
   \<and> code (handleAuthError e) \<noteq> [] \<and> message (handleAuthError e) \<noteq> []"
proof (intro conjI)
  show "\<forall>(k, m) \<in> set messageTable. handleAuthError \<lparr> raw_code = Some k \<rparr> = \<lparr> code = k, message = m \<rparr>"
    by (simp add: messageTable_def handleAuthError_def switchMessage_def orElse_def)
  show "\<forall>k. k \<notin> fst ` set messageTable \<longrightarrow>
          message (handleAuthError \<lparr> raw_code = Some k \<rparr>) = genericMessage
          \<and> code (handleAuthError \<lparr> raw_code = Some k \<rparr>) = (if k = [] then ''unknown'' else k)"
    by (simp add: messageTable_def handleAuthError_def switchMessage_def orElse_def)
  show "handleAuthError \<lparr> raw_code = None \<rparr> = \<lparr> code = ''unknown'', message = genericMessage \<rparr>"
    by (simp add: handleAuthError_def switchMessage_def orElse_def)
  show "code (handleAuthError e) \<noteq> []"
    by (simp add: handleAuthError_def orElse_nonempty)
  show "message (handleAuthError e) \<noteq> []"
    by (simp add: handleAuthError_def switchMessage_nonempty)
qed

theorem handleAuthError_translation_witness:
  "handleAuthError \<lparr> raw_code = Some ''auth/weak-password'' \<rparr>
     = \<lparr> code = ''auth/weak-password'', message = ''Password should be at least 6 characters long.'' \<rparr>
   \<and> handleAuthError \<lparr> raw_code = Some ''permission-denied'' \<rparr>
     = \<lparr> code = ''permission-denied'', message = ''An unexpected error occurred. Please try again.'' \<rparr>
   \<and> handleAuthError \<lparr> raw_code = None \<rparr>
     = \<lparr> code = ''unknown'', message = ''An unexpected error occurred. Please try again.'' \<rparr>"
  using handleAuthError_translation [of "\<lparr> raw_code = None \<rparr>"]
  by (simp add: messageTable_def genericMessage_def)

section \<open>AccessGuard evaluator\<close>

text \<open>
  C4.  The Authenticated guard allows exactly when a session is present and
  (emailVerified or the provider is not "email").  When it denies it redirects
  to verify-email if the session is present, unverified and of the email
  provider, and otherwise to login with the requested URL as \<^verbatim>\<open>returnUrl\<close>.
  The decision is a function of the snapshot and the URL alone.
\<close>

theorem AuthGuard_policy:
  "AuthGuard_canActivate url s =
     (if Authenticated_allow s then (True, None) else (False, Some (Authenticated_redirect url s)))"
  by (cases s)
     (auto simp: AuthGuard_canActivate_def Authenticated_allow_def Authenticated_redirect_def
        unverifiedEmailProvider_def verifyEmailNav_def loginNav_def)

theorem AuthGuard_policy_witness:
  "AuthGuard_canActivate ''/profile'' (Some annRecord)
     = (False, Some \<lparr> commands = [''/verify-email''], queryParams = [] \<rparr>)
   \<and> AuthGuard_canActivate ''/profile'' (Some (annRecord\<lparr> emailVerified := True \<rparr>)) = (True, None)
   \<and> AuthGuard_canActivate ''/profile'' (Some (annRecord\<lparr> provider := Some ''google'' \<rparr>)) = (True, None)
   \<and> AuthGuard_canActivate ''/profile'' None
     = (False, Some \<lparr> commands = [''/login''], queryParams = [(''returnUrl'', ''/profile'')] \<rparr>)"
  using AuthGuard_policy [of "''/profile''" "Some annRecord"]
    AuthGuard_policy [of "''/profile''" "Some (annRecord\<lparr> emailVerified := True \<rparr>)"]
    AuthGuard_policy [of "''/profile''" "Some (annRecord\<lparr> provider := Some ''google'' \<rparr>)"]
    AuthGuard_policy [of "''/profile''" None]
  by (simp add: Authenticated_allow_def Authenticated_redirect_def unverifiedEmailProvider_def
        verifyEmailNav_def loginNav_def annRecord_def)

text \<open>
  C5.  The Guest-only guard allows exactly when no session is present.  With a
  session it denies and redirects to verify-email if the user is unverified
  with provider "email", and otherwise to the dashboard, the default
  authenticated landing page.
\<close>

theorem GuestGuard_policy:
  "GuestGuard_canActivate s =
     (if GuestOnly_allow s then (True, None) else (False, Some (GuestOnly_redirect s)))"
  by (cases s)
     (auto simp: GuestGuard_canActivate_def GuestOnly_allow_def GuestOnly_redirect_def
        unverifiedEmailProvider_def verifyEmailNav_def dashboardNav_def)

theorem GuestGuard_policy_witness:
  "GuestGuard_canActivate None = (True, None)
   \<and> GuestGuard_canActivate (Some annRecord)
     = (False, Some \<lparr> commands = [''/verify-email''], queryParams = [] \<rparr>)
   \<and> GuestGuard_canActivate (Some (annRecord\<lparr> emailVerified := True \<rparr>))
     = (False, Some \<lparr> commands = [''/dashboard''], queryParams = [] \<rparr>)"
  using GuestGuard_policy [of None] GuestGuard_policy [of "Some annRecord"]
    GuestGuard_policy [of "Some (annRecord\<lparr> emailVerified := True \<rparr>)"]
  by (simp add: GuestOnly_allow_def GuestOnly_redirect_def unverifiedEmailProvider_def
        verifyEmailNav_def dashboardNav_def annRecord_def)

section \<open>SessionManager\<close>

text \<open>
  C9.  Without a provider-side current user, \<^verbatim>\<open>checkEmailVerification\<close> returns
  false and leaves the whole world as it was: no directory write, the published
  session untouched.
\<close>

theorem checkEmailVerification_no_user:
  "authCurrentUser w = None \<Longrightarrow> checkEmailVerification env w = (Inr False, w)"
  by (simp add: checkEmailVerification_def)

theorem checkEmailVerification_no_user_witness:
  "authCurrentUser initialWorld = None
   \<and> checkEmailVerification allSucceed initialWorld = (Inr False, initialWorld)"
proof -
  have h: "authCurrentUser initialWorld = None" by (simp add: initialWorld_def)
  from checkEmailVerification_no_user [OF h, of allSucceed] h show ?thesis by simp
qed

text \<open>
  C10.  If the provider's sign-out fails, \<^verbatim>\<open>signOut\<close> throws the translated
  error and the published session keeps its value; the world it leaves is the
  one \<^verbatim>\<open>stopEmailVerificationCheck\<close> produced before the provider was
  called.  Only when the provider succeeds is the session set to null.  Either
  way the stored timer handle is cleared and its timer is no longer scheduled.
\<close>

theorem signOut_outcomes:
  "(signOut_r env = Some e \<longrightarrow>
      fst (signOut env w) = Inl (handleAuthError e)
      \<and> currentUserSubject (snd (signOut env w)) = currentUserSubject w
      \<and> snd (signOut env w) = stopEmailVerificationCheck w)
   \<and> (signOut_r env = None \<longrightarrow>
      fst (signOut env w) = Inr ()
      \<and> currentUserSubject (snd (signOut env w)) = None)
   \<and> emailVerificationCheckInterval (snd (signOut env w)) = None
   \<and> (\<forall>h. emailVerificationCheckInterval w = Some h \<longrightarrow> h \<notin> set (timers (snd (signOut env w))))"
  by (cases "signOut_r env") (simp_all add: signOut_def Let_def stop_session stop_handle stop_timer)

theorem signOut_outcomes_witness:
  "signOut_r (allSucceed\<lparr> signOut_r := Some networkFailure \<rparr>) = Some networkFailure
   \<and> emailVerificationCheckInterval annPolling = Some 1
   \<and> fst (signOut (allSucceed\<lparr> signOut_r := Some networkFailure \<rparr>) annPolling)
       = Inl \<lparr> code = ''auth/network-request-failed'',
               message = ''Network error. Please check your connection and try again.'' \<rparr>
   \<and> currentUserSubject (snd (signOut (allSucceed\<lparr> signOut_r := Some networkFailure \<rparr>) annPolling))
       = Some annRecord
   \<and> 1 \<notin> set (timers (snd (signOut (allSucceed\<lparr> signOut_r := Some networkFailure \<rparr>) annPolling)))
   \<and> signOut_r allSucceed = None
   \<and> currentUserSubject (snd (signOut allSucceed annPolling)) = None"
proof -
  have a: "signOut_r (allSucceed\<lparr> signOut_r := Some networkFailure \<rparr>) = Some networkFailure"
    by simp
  have b: "signOut_r allSucceed = None" by (simp add: allSucceed_def)
  have c: "emailVerificationCheckInterval annPolling = Some 1"
    by (simp add: annPolling_def startEmailVerificationCheck_def setInterval_def annSignedUp_def)
  have d: "currentUserSubject annPolling = Some annRecord"
    by (simp add: annPolling_def startEmailVerificationCheck_def setInterval_def annSignedUp_def)
  have e: "handleAuthError networkFailure = \<lparr> code = ''auth/network-request-failed'',
               message = ''Network error. Please check your connection and try again.'' \<rparr>"
    by (simp add: handleAuthError_def networkFailure_def switchMessage_def orElse_def)
  from signOut_outcomes [of "allSucceed\<lparr> signOut_r := Some networkFailure \<rparr>" networkFailure annPolling]
    signOut_outcomes [of allSucceed networkFailure annPolling] a b c d e
  show ?thesis by (simp add: stop_session stop_timer)
qed

lemma updateLastLogin_missing: "users w i = None \<Longrightarrow> updateLastLogin env i w = w"
  by (simp add: updateLastLogin_def updateDoc_def split: option.splits)

lemma getUserData_missing: "users w i = None \<Longrightarrow> getUserData env w i = None"
  by (simp add: getUserData_def getDoc_def split: option.splits)

text \<open>
  C6.  When the provider accepts the credentials but the directory has no
  record for the identifier, \<^verbatim>\<open>signIn\<close> completes without throwing and the
  session keeps its prior value; when the provider rejects the credentials the
  caller gets the translation of that failure.
\<close>

theorem signIn_missing_record_tolerated:
  "(signInWithEmailAndPassword_r env = Inr user \<and> users w (fuid user) = None \<longrightarrow>
      fst (signIn env mail password w) = Inr ()
      \<and> currentUserSubject (snd (signIn env mail password w)) = currentUserSubject w)
   \<and> (signInWithEmailAndPassword_r env = Inl e \<longrightarrow>
      fst (signIn env mail password w) = Inl (handleAuthError e))"
  by (simp add: signIn_def signIn_try_def catchFinally_def Let_def
      updateLastLogin_missing getUserData_missing)

theorem signIn_missing_record_tolerated_witness:
  "signInWithEmailAndPassword_r allSucceed = Inr annIdentity
   \<and> users (initialWorld\<lparr> currentUserSubject := Some annRecord \<rparr>) (fuid annIdentity) = None
   \<and> fst (signIn allSucceed ''a@b.com'' ''Abc123'' (initialWorld\<lparr> currentUserSubject := Some annRecord \<rparr>)) = Inr ()
   \<and> currentUserSubject (snd (signIn allSucceed ''a@b.com'' ''Abc123'' (initialWorld\<lparr> currentUserSubject := Some annRecord \<rparr>)))
       = Some annRecord
   \<and> signInWithEmailAndPassword_r (allSucceed\<lparr> signInWithEmailAndPassword_r := Inl \<lparr> raw_code = Some ''auth/wrong-password'' \<rparr> \<rparr>)
       = Inl \<lparr> raw_code = Some ''auth/wrong-password'' \<rparr>
   \<and> fst (signIn (allSucceed\<lparr> signInWithEmailAndPassword_r := Inl \<lparr> raw_code = Some ''auth/wrong-password'' \<rparr> \<rparr>)
            ''a@b.com'' ''nope'' annSignedUp)
       = Inl \<lparr> code = ''auth/wrong-password'', message = ''Incorrect password. Please try again.'' \<rparr>"
proof -
  have a: "signInWithEmailAndPassword_r allSucceed = Inr annIdentity"
    by (simp add: allSucceed_def)
  have b: "users (initialWorld\<lparr> currentUserSubject := Some annRecord \<rparr>) (fuid annIdentity) = None"
    by (simp add: initialWorld_def)
  have c: "handleAuthError \<lparr> raw_code = Some ''auth/wrong-password'' \<rparr>
      = \<lparr> code = ''auth/wrong-password'', message = ''Incorrect password. Please try again.'' \<rparr>"
    by (simp add: handleAuthError_def switchMessage_def orElse_def)
  from signIn_missing_record_tolerated [of allSucceed annIdentity
        "initialWorld\<lparr> currentUserSubject := Some annRecord \<rparr>" "''a@b.com''" "''Abc123''"]
    signIn_missing_record_tolerated [of
        "allSucceed\<lparr> signInWithEmailAndPassword_r := Inl \<lparr> raw_code = Some ''auth/wrong-password'' \<rparr> \<rparr>"
        _ annSignedUp "''a@b.com''" "''nope''" "\<lparr> raw_code = Some ''auth/wrong-password'' \<rparr>"]
    a b c
  show ?thesis by simp
qed

lemma updateLastLogin_session: "currentUserSubject (updateLastLogin env i w) = currentUserSubject w"
  by (simp add: updateLastLogin_def split: sum.splits)

lemma updateLastLogin_users_dom:
  "(users (updateLastLogin env i w) j = None) = (users w j = None)"
  by (simp add: updateLastLogin_def updateDoc_def split: sum.splits option.splits)

lemma signUp_try_session:
  "case signUp_try env mail password name w of
     (Inl e, w') \<Rightarrow> currentUserSubject w' = currentUserSubject w
   | (Inr u, w') \<Rightarrow> currentUserSubject w' \<noteq> None"
  by (simp add: signUp_try_def Let_def saveUserData_def split: sum.splits option.splits)

lemma signInWithPopup_try_session:
  "case signInWithPopup_try tag env w of
     (Inl e, w') \<Rightarrow> currentUserSubject w' = currentUserSubject w
   | (Inr u, w') \<Rightarrow> currentUserSubject w' \<noteq> None"
  by (simp add: signInWithPopup_try_def Let_def saveUserData_def updateLastLogin_session
      split: sum.splits option.splits)

lemma signIn_try_failure:
  "case signIn_try env mail password w of
     (Inl e, w') \<Rightarrow> currentUserSubject w' = currentUserSubject w
   | (Inr u, w') \<Rightarrow> True"
  by (simp add: signIn_try_def Let_def split: sum.splits option.splits)

lemma good_flow:
  assumes "case r of (Inl e, w') \<Rightarrow> currentUserSubject w' = currentUserSubject w
                   | (Inr u, w') \<Rightarrow> currentUserSubject w' \<noteq> None"
  shows "clearsLoading_keepsSessionOnFailure w (catchFinally r) \<and> sessionPresentOnSuccess (catchFinally r)"
  using assms
  by (auto simp: clearsLoading_keepsSessionOnFailure_def sessionPresentOnSuccess_def catchFinally_def
      split: prod.splits sum.splits)

lemma signIn_flow:
  "clearsLoading_keepsSessionOnFailure w (signIn env mail password w)"
  using signIn_try_failure [where env = env and mail = mail and password = password and w = w]
  by (auto simp: signIn_def clearsLoading_keepsSessionOnFailure_def catchFinally_def
      split: prod.splits sum.splits)

lemma signIn_success:
  assumes "signInWithEmailAndPassword_r env = Inr user"
  shows "fst (signIn env mail password w) = Inr ()
     \<and> (if getDoc_r env = None \<and> users w (fuid user) \<noteq> None
        then currentUserSubject (snd (signIn env mail password w)) \<noteq> None
        else currentUserSubject (snd (signIn env mail password w)) = currentUserSubject w)"
proof -
  let ?w1 = "w\<lparr> loadingSubject := True, authCurrentUser := Some user \<rparr>"
  have dom: "(users (updateLastLogin env (fuid user) ?w1) (fuid user) = None) = (users w (fuid user) = None)"
    by (simp add: updateLastLogin_users_dom)
  show ?thesis
    using assms dom
    by (auto simp: signIn_def signIn_try_def catchFinally_def Let_def getUserData_def getDoc_def
        updateLastLogin_session split: option.splits)
qed

text \<open>
  C2, as the code has it.  \<^verbatim>\<open>signUp\<close>, \<^verbatim>\<open>signInWithGoogle\<close> and
  \<^verbatim>\<open>signInWithFacebook\<close>: after a successful call the session is non-null and
  loading is false.  \<^verbatim>\<open>signIn\<close>: accepted credentials always give a
  successful call with loading false; the session is non-null if the directory
  read returns a record for the identifier, and otherwise keeps its prior
  value.  All four: after a failed call loading is false and the session is
  unchanged.
\<close>

theorem sign_flows_loading_and_session:
  "clearsLoading_keepsSessionOnFailure w (signUp env mail password name w)
   \<and> sessionPresentOnSuccess (signUp env mail password name w)
   \<and> clearsLoading_keepsSessionOnFailure w (signInWithGoogle env w)
   \<and> sessionPresentOnSuccess (signInWithGoogle env w)
   \<and> clearsLoading_keepsSessionOnFailure w (signInWithFacebook env w)
   \<and> sessionPresentOnSuccess (signInWithFacebook env w)
   \<and> clearsLoading_keepsSessionOnFailure w (signIn env mail password w)
   \<and> (\<forall>user. signInWithEmailAndPassword_r env = Inr user \<longrightarrow>
         fst (signIn env mail password w) = Inr ()
         \<and> (if getDoc_r env = None \<and> users w (fuid user) \<noteq> None
            then currentUserSubject (snd (signIn env mail password w)) \<noteq> None
            else currentUserSubject (snd (signIn env mail password w)) = currentUserSubject w))"
  using good_flow [OF signUp_try_session [where env = env and mail = mail and password = password and name = name and w = w]]
    good_flow [OF signInWithPopup_try_session [where tag = "''google''" and env = env and w = w]]
    good_flow [OF signInWithPopup_try_session [where tag = "''facebook''" and env = env and w = w]]
    signIn_flow [where w = w and env = env and mail = mail and password = password]
    signIn_success [where w = w and env = env and mail = mail and password = password]
  by (simp add: signUp_def signInWithGoogle_def signInWithFacebook_def)

theorem sign_flows_loading_and_session_witness:
  "fst (signUp allSucceed ''a@b.com'' ''Abc123'' ''Ann'' initialWorld) = Inr ()
   \<and> currentUserSubject (snd (signUp allSucceed ''a@b.com'' ''Abc123'' ''Ann'' initialWorld)) \<noteq> None
   \<and> \<not> loadingSubject (snd (signUp allSucceed ''a@b.com'' ''Abc123'' ''Ann'' initialWorld))
   \<and> signInWithEmailAndPassword_r allSucceed = Inr annIdentity
   \<and> getDoc_r allSucceed = None \<and> users annSignedUp (fuid annIdentity) \<noteq> None
   \<and> fst (signIn allSucceed ''a@b.com'' ''Abc123'' annSignedUp) = Inr ()
   \<and> currentUserSubject (snd (signIn allSucceed ''a@b.com'' ''Abc123'' annSignedUp)) \<noteq> None
   \<and> fst (signInWithGoogle (allSucceed\<lparr> signInWithPopup_r := Inl networkFailure \<rparr>) annSignedUp)
       = Inl (handleAuthError networkFailure)
   \<and> currentUserSubject (snd (signInWithGoogle (allSucceed\<lparr> signInWithPopup_r := Inl networkFailure \<rparr>) annSignedUp))
       = currentUserSubject annSignedUp
   \<and> \<not> loadingSubject (snd (signInWithGoogle (allSucceed\<lparr> signInWithPopup_r := Inl networkFailure \<rparr>) annSignedUp))"
proof -
  have a: "fst (signUp allSucceed ''a@b.com'' ''Abc123'' ''Ann'' initialWorld) = Inr ()"
    by (simp add: signUp_example)
  have b: "signInWithEmailAndPassword_r allSucceed = Inr annIdentity" "getDoc_r allSucceed = None"
    by (simp_all add: allSucceed_def)
  have c: "users annSignedUp (fuid annIdentity) \<noteq> None"
    by (simp add: annSignedUp_def annIdentity_def)
  have d: "fst (signInWithGoogle (allSucceed\<lparr> signInWithPopup_r := Inl networkFailure \<rparr>) annSignedUp)
       = Inl (handleAuthError networkFailure)"
    by (simp add: signInWithGoogle_def signInWithPopup_try_def catchFinally_def)
  from sign_flows_loading_and_session
         [where w = initialWorld and env = allSucceed and mail = "''a@b.com''"
            and password = "''Abc123''" and name = "''Ann''"]
       sign_flows_loading_and_session
         [where w = annSignedUp and env = allSucceed and mail = "''a@b.com''"
            and password = "''Abc123''"]
       sign_flows_loading_and_session
         [where w = annSignedUp and env = "allSucceed\<lparr> signInWithPopup_r := Inl networkFailure \<rparr>"]
       a b c d
  show ?thesis
    by (simp add: clearsLoading_keepsSessionOnFailure_def sessionPresentOnSuccess_def)
qed

text \<open>
  C2 as stated fails for \<^verbatim>\<open>signIn\<close>: on a fresh service, with accepted
  credentials and an empty directory, the call succeeds and the session is
  still null.
\<close>

theorem signIn_success_without_session_counterexample:
  "fst (signIn allSucceed ''a@b.com'' ''Abc123'' initialWorld) = Inr ()
   \<and> currentUserSubject (snd (signIn allSucceed ''a@b.com'' ''Abc123'' initialWorld)) = None"
  by (simp add: signIn_def signIn_try_def catchFinally_def Let_def allSucceed_def initialWorld_def
      annIdentity_def updateLastLogin_def updateDoc_def getUserData_def getDoc_def)

text \<open>
  \<^verbatim>\<open>checkEmailVerification\<close> run by run.  A rejected refresh or patch leaves
  the method as the raw error, with the session and the directory untouched;
  the callers in the component catch it.
\<close>

lemma check_reload_rejected:
  assumes "authCurrentUser w = Some user" "reload_r env = Inl e"
  shows "checkEmailVerification env w = (Inl e, w)"
  using assms by (simp add: checkEmailVerification_def)

lemma check_patch_rejected:
  assumes "authCurrentUser w = Some user" "reload_r env = Inr True"
    "updateDoc env (users w) (fuid user) (\<lambda>d. d\<lparr> emailVerified := True \<rparr>) = Inl e"
  shows "checkEmailVerification env w
           = (Inl e, w\<lparr> authCurrentUser := Some (user\<lparr> femailVerified := True \<rparr>) \<rparr>)"
  using assms by (simp add: checkEmailVerification_def Let_def)

lemma check_unverified:
  assumes "authCurrentUser w = Some user" "reload_r env = Inr False"
  shows "checkEmailVerification env w
           = (Inr False, w\<lparr> authCurrentUser := Some (user\<lparr> femailVerified := False \<rparr>) \<rparr>)"
  using assms by (simp add: checkEmailVerification_def Let_def)

lemma check_verified:
  assumes "authCurrentUser w = Some user" "reload_r env = Inr True"
    "updateDoc_r env = None" "users w (fuid user) = Some d"
  shows "checkEmailVerification env w
           = (Inr True, w\<lparr> authCurrentUser := Some (user\<lparr> femailVerified := True \<rparr>),
                           users := (users w)(fuid user \<mapsto> d\<lparr> emailVerified := True \<rparr>),
                           currentUserSubject :=
                             map_option (\<lambda>c. c\<lparr> emailVerified := True \<rparr>) (currentUserSubject w) \<rparr>)"
  using assms
  by (cases "currentUserSubject w") (simp_all add: checkEmailVerification_def Let_def updateDoc_def)

lemma check_verified_again:
  assumes "authCurrentUser w = Some user" "reload_r env = Inr True"
    "updateDoc_r env = None" "users w (fuid user) = Some d"
    "reload_r env' = Inr True" "updateDoc_r env' = None"
  shows "checkEmailVerification env' (snd (checkEmailVerification env w))
           = (Inr True, snd (checkEmailVerification env w))"
proof -
  let ?w1 = "snd (checkEmailVerification env w)"
  let ?u1 = "user\<lparr> femailVerified := True \<rparr>"
  let ?d1 = "d\<lparr> emailVerified := True \<rparr>"
  have w1: "?w1 = w\<lparr> authCurrentUser := Some ?u1,
                           users := (users w)(fuid user \<mapsto> ?d1),
                           currentUserSubject :=
                             map_option (\<lambda>c. c\<lparr> emailVerified := True \<rparr>) (currentUserSubject w) \<rparr>"
    using check_verified [OF assms(1-4)] by simp
  have a: "authCurrentUser ?w1 = Some ?u1" by (simp add: w1)
  have b: "users ?w1 (fuid ?u1) = Some ?d1" by (simp add: w1)
  have "checkEmailVerification env' ?w1
      = (Inr True, ?w1\<lparr> authCurrentUser := Some (?u1\<lparr> femailVerified := True \<rparr>),
                           users := (users ?w1)(fuid ?u1 \<mapsto> ?d1\<lparr> emailVerified := True \<rparr>),
                           currentUserSubject :=
                             map_option (\<lambda>c. c\<lparr> emailVerified := True \<rparr>) (currentUserSubject ?w1) \<rparr>)"
    by (rule check_verified [OF a assms(5) assms(6) b])
  also have "?w1\<lparr> authCurrentUser := Some (?u1\<lparr> femailVerified := True \<rparr>),
                           users := (users ?w1)(fuid ?u1 \<mapsto> ?d1\<lparr> emailVerified := True \<rparr>),
                           currentUserSubject :=
                             map_option (\<lambda>c. c\<lparr> emailVerified := True \<rparr>) (currentUserSubject ?w1) \<rparr> = ?w1"
    by (simp add: w1 option.map_comp comp_def)
  finally show ?thesis .
qed

text \<open>
  C3.  With a provider user whose refresh answers, the result of
  \<^verbatim>\<open>checkEmailVerification\<close> is the live flag, whatever the cached one was.
  If the provider reports unverified, the method returns false and neither the
  directory nor the session changes.  If it reports verified and the directory
  accepts the patch of the user's record, the record gets emailVerified = true,
  the published session (if any) gets emailVerified = true, and the method
  returns true.  A second call right after, with the provider still reporting
  verified, returns true again and leaves the world exactly as the first call
  left it.
\<close>

theorem checkEmailVerification_verified_idempotent:
  "(authCurrentUser w = Some user \<and> reload_r env = Inr False \<longrightarrow>
      fst (checkEmailVerification env w) = Inr False
      \<and> users (snd (checkEmailVerification env w)) = users w
      \<and> currentUserSubject (snd (checkEmailVerification env w)) = currentUserSubject w)
   \<and> (authCurrentUser w = Some user \<and> reload_r env = Inr True
       \<and> updateDoc_r env = None \<and> users w (fuid user) = Some d \<longrightarrow>
      fst (checkEmailVerification env w) = Inr True
      \<and> users (snd (checkEmailVerification env w)) = (users w)(fuid user \<mapsto> d\<lparr> emailVerified := True \<rparr>)
      \<and> currentUserSubject (snd (checkEmailVerification env w))
          = map_option (\<lambda>c. c\<lparr> emailVerified := True \<rparr>) (currentUserSubject w)
      \<and> (reload_r env' = Inr True \<and> updateDoc_r env' = None \<longrightarrow>
          checkEmailVerification env' (snd (checkEmailVerification env w))
            = (Inr True, snd (checkEmailVerification env w))))"
proof (intro conjI impI; (elim conjE)?)
  assume "authCurrentUser w = Some user" "reload_r env = Inr False"
  note u = check_unverified [OF this]
  show "fst (checkEmailVerification env w) = Inr False" by (simp add: u)
  show "users (snd (checkEmailVerification env w)) = users w" by (simp add: u)
  show "currentUserSubject (snd (checkEmailVerification env w)) = currentUserSubject w" by (simp add: u)
next
  assume h: "authCurrentUser w = Some user" "reload_r env = Inr True"
    "updateDoc_r env = None" "users w (fuid user) = Some d"
  note v = check_verified [OF h]
  show "fst (checkEmailVerification env w) = Inr True" by (simp add: v)
  show "users (snd (checkEmailVerification env w)) = (users w)(fuid user \<mapsto> d\<lparr> emailVerified := True \<rparr>)"
    by (simp add: v)
  show "currentUserSubject (snd (checkEmailVerification env w))
          = map_option (\<lambda>c. c\<lparr> emailVerified := True \<rparr>) (currentUserSubject w)"
    by (simp add: v)
  assume "reload_r env' = Inr True" "updateDoc_r env' = None"
  from check_verified_again [OF h this]
  show "checkEmailVerification env' (snd (checkEmailVerification env w))
            = (Inr True, snd (checkEmailVerification env w))" .
qed

theorem checkEmailVerification_verified_idempotent_witness:
  "authCurrentUser annSignedUp = Some (annIdentity\<lparr> fdisplayName := Some ''Ann'' \<rparr>)
   \<and> reload_r allSucceed = Inr True \<and> updateDoc_r allSucceed = None
   \<and> users annSignedUp (fuid (annIdentity\<lparr> fdisplayName := Some ''Ann'' \<rparr>)) = Some annRecord
   \<and> reload_r (allSucceed\<lparr> reload_r := Inr False \<rparr>) = Inr False
   \<and> fst (checkEmailVerification (allSucceed\<lparr> reload_r := Inr False \<rparr>) annSignedUp) = Inr False
   \<and> users (snd (checkEmailVerification (allSucceed\<lparr> reload_r := Inr False \<rparr>) annSignedUp)) = users annSignedUp
   \<and> fst (checkEmailVerification allSucceed annSignedUp) = Inr True
   \<and> users (snd (checkEmailVerification allSucceed annSignedUp)) ''u1'' = Some (annRecord\<lparr> emailVerified := True \<rparr>)
   \<and> currentUserSubject (snd (checkEmailVerification allSucceed annSignedUp)) = Some (annRecord\<lparr> emailVerified := True \<rparr>)
   \<and> checkEmailVerification allSucceed (snd (checkEmailVerification allSucceed annSignedUp))
       = (Inr True, snd (checkEmailVerification allSucceed annSignedUp))"
proof -
  let ?u = "annIdentity\<lparr> fdisplayName := Some ''Ann'' \<rparr>"
  have a: "authCurrentUser annSignedUp = Some ?u" by (simp add: annSignedUp_def)
  have b: "reload_r allSucceed = Inr True" "updateDoc_r allSucceed = None"
    by (simp_all add: allSucceed_def)
  have c: "users annSignedUp (fuid ?u) = Some annRecord"
    by (simp add: annSignedUp_def annIdentity_def)
  have d: "reload_r (allSucceed\<lparr> reload_r := Inr False \<rparr>) = Inr False" by simp
  have e: "fuid ?u = ''u1''" by (simp add: annIdentity_def)
  have f: "currentUserSubject annSignedUp = Some annRecord" by (simp add: annSignedUp_def)
  from checkEmailVerification_verified_idempotent
         [where w = annSignedUp and user = ?u and env = allSucceed and d = annRecord and env' = allSucceed]
       checkEmailVerification_verified_idempotent
         [where w = annSignedUp and user = ?u and env = "allSucceed\<lparr> reload_r := Inr False \<rparr>"]
       a b c d e f
  show ?thesis by simp
qed

section \<open>VerificationPoller\<close>

lemma freshHandle_bound: "h \<in> set hs \<Longrightarrow> h < freshHandle hs"
  by (induction hs) auto

lemma freshHandle_fresh: "freshHandle hs \<notin> set hs"
  using freshHandle_bound [of "freshHandle hs" hs] by auto

lemma resend_rejected:
  "resendCooldown c > 0 \<Longrightarrow> resendVerificationEmail env (c, w) = (c, w)"
  by (simp add: resendVerificationEmail_def)

lemma resend_accepted:
  assumes "resendCooldown c \<le> 0" "\<not> loading c" "sendEmailVerification env w = (Inr (), w1)"
  shows "resendVerificationEmail env (c, w)
     = (c\<lparr> loading := False, error := None, resendCooldown := 60,
            resendCooldownInterval := Some (freshHandle (timers w1)) \<rparr>,
        w1\<lparr> timers := freshHandle (timers w1) # timers w1 \<rparr>)"
  using assms
  by (simp add: resendVerificationEmail_def startResendCooldown_def setInterval_def Let_def)

lemma tick_counting:
  assumes "h \<in> set (timers w)" "resendCooldown c > 1"
  shows "resendCooldownTick h (c, w) = (c\<lparr> resendCooldown := resendCooldown c - 1 \<rparr>, w)"
  using assms by (simp add: resendCooldownTick_def Let_def)

lemma tick_last:
  assumes "h \<in> set (timers w)" "resendCooldown c = 1" "resendCooldownInterval c = Some h"
  shows "resendCooldownTick h (c, w)
     = (c\<lparr> resendCooldown := 0, resendCooldownInterval := None \<rparr>,
        w\<lparr> timers := clearInterval h (timers w) \<rparr>)"
  using assms by (simp add: resendCooldownTick_def stopResendCooldown_def Let_def)

lemma tick_inactive: "h \<notin> set (timers w) \<Longrightarrow> resendCooldownTick h (c, w) = (c, w)"
  by (simp add: resendCooldownTick_def)

lemma ticks_counting:
  assumes "h \<in> set (timers w)" "resendCooldown c = int k" "n < k"
  shows "(resendCooldownTick h ^^ n) (c, w) = (c\<lparr> resendCooldown := int k - int n \<rparr>, w)"
  using assms(3)
proof (induction n)
  case 0
  show ?case using assms(2) by simp
next
  case (Suc n)
  then have "(resendCooldownTick h ^^ n) (c, w) = (c\<lparr> resendCooldown := int k - int n \<rparr>, w)"
    by simp
  moreover have "resendCooldown (c\<lparr> resendCooldown := int k - int n \<rparr>) > 1"
    using Suc.prems by simp
  ultimately show ?case
    using tick_counting [OF assms(1), of "c\<lparr> resendCooldown := int k - int n \<rparr>"]
    by (simp add: algebra_simps)
qed

lemma ticks_done:
  assumes "h \<in> set (timers w)" "resendCooldown c = int k" "0 < k" "resendCooldownInterval c = Some h"
  shows "(resendCooldownTick h ^^ k) (c, w)
     = (c\<lparr> resendCooldown := 0, resendCooldownInterval := None \<rparr>,
        w\<lparr> timers := clearInterval h (timers w) \<rparr>)"
proof -
  obtain j where k: "k = Suc j" using assms(3) by (cases k) auto
  have "(resendCooldownTick h ^^ j) (c, w) = (c\<lparr> resendCooldown := int k - int j \<rparr>, w)"
    by (rule ticks_counting [OF assms(1,2)]) (simp add: k)
  then show ?thesis
    using tick_last [OF assms(1), of "c\<lparr> resendCooldown := int k - int j \<rparr>"] assms(4)
    by (simp add: k)
qed

lemma ticks_idle:
  assumes "h \<notin> set (timers w)"
  shows "(resendCooldownTick h ^^ n) (c, w) = (c, w)"
  by (induction n) (simp_all add: tick_inactive [OF assms])

lemma ticks_after:
  assumes "h \<in> set (timers w)" "resendCooldown c = int k" "0 < k" "resendCooldownInterval c = Some h"
    "k \<le> n"
  shows "(resendCooldownTick h ^^ n) (c, w)
     = (c\<lparr> resendCooldown := 0, resendCooldownInterval := None \<rparr>,
        w\<lparr> timers := clearInterval h (timers w) \<rparr>)"
proof -
  obtain m where n: "n = m + k" using assms(5) by (metis le_add_diff_inverse2)
  have "h \<notin> set (timers (w\<lparr> timers := clearInterval h (timers w) \<rparr>))"
    by (simp add: clearInterval_def)
  from ticks_idle [OF this] ticks_done [OF assms(1-4)]
  show ?thesis by (simp add: n funpow_add)
qed


lemma send_timers: "timers (snd (sendEmailVerification env w)) = timers w"
  by (simp add: sendEmailVerification_def split: option.splits)

lemma send_dispatch:
  assumes "authCurrentUser w = Some u" "\<not> femailVerified u" "sendEmailVerification_r env = None"
  shows "sendEmailVerification env w = (Inr (), w\<lparr> sentEmails := Suc (sentEmails w) \<rparr>)"
  using assms by (simp add: sendEmailVerification_def)

lemma cooldown_states:
  assumes idle: "resendCooldown c \<le> 0" "\<not> loading c"
    and ok: "fst (sendEmailVerification env w) = Inr ()"
  defines "w1 \<equiv> snd (sendEmailVerification env w)"
  defines "h \<equiv> freshHandle (timers w)"
  defines "c1 \<equiv> c\<lparr> loading := False, error := None, resendCooldown := 60,
                     resendCooldownInterval := Some h \<rparr>"
  shows "n < 60 \<Longrightarrow> cooldownAfter env c w n
           = (c1\<lparr> resendCooldown := 60 - int n \<rparr>, w1\<lparr> timers := h # timers w \<rparr>)"
    and "60 \<le> n \<Longrightarrow> cooldownAfter env c w n
           = (c1\<lparr> resendCooldown := 0, resendCooldownInterval := None \<rparr>,
              w1\<lparr> timers := timers w \<rparr>)"
proof -
  have s: "sendEmailVerification env w = (Inr (), w1)"
    using ok by (simp add: w1_def prod_eq_iff)
  have t: "timers w1 = timers w" by (simp add: w1_def send_timers)
  have start: "resendVerificationEmail env (c, w) = (c1, w1\<lparr> timers := h # timers w \<rparr>)"
    using resend_accepted [OF idle s] by (simp add: c1_def h_def t)
  have act: "h \<in> set (timers (w1\<lparr> timers := h # timers w \<rparr>))" by simp
  have cd: "resendCooldown c1 = int 60" by (simp add: c1_def)
  have hd: "resendCooldownInterval c1 = Some h" by (simp add: c1_def)
  have fresh: "clearInterval h (h # timers w) = timers w"
    using freshHandle_fresh [of "timers w"] by (simp add: clearInterval_def h_def)
  show "n < 60 \<Longrightarrow> cooldownAfter env c w n
           = (c1\<lparr> resendCooldown := 60 - int n \<rparr>, w1\<lparr> timers := h # timers w \<rparr>)"
    using ticks_counting [OF act cd, of n] by (simp add: cooldownAfter_def start h_def [symmetric])
  show "60 \<le> n \<Longrightarrow> cooldownAfter env c w n
           = (c1\<lparr> resendCooldown := 0, resendCooldownInterval := None \<rparr>,
              w1\<lparr> timers := timers w \<rparr>)"
    using ticks_after [OF act cd _ hd, of n] fresh
    by (simp add: cooldownAfter_def start h_def [symmetric])
qed

text \<open>
  C7.  A resend request made while the component is idle and answered with
  success sets the cooldown to 60 and starts its timer.  After \<open>n\<close> firings of
  that timer the cooldown is \<open>60 - n\<close>, and 0 from the 60th firing on.  Before
  the 60th firing the timer is scheduled and every resend request returns with
  nothing changed, so no email is dispatched.  From the 60th firing on the
  timer is gone and the handle cleared, and a resend request for an unverified
  user is passed to the provider, which dispatches one more email, and the
  cooldown starts again at 60.
\<close>

theorem resend_cooldown:
  assumes idle: "resendCooldown c \<le> 0" "\<not> loading c"
    and ok: "fst (sendEmailVerification env w) = Inr ()"
  shows "(\<forall>n. resendCooldown (fst (cooldownAfter env c w n)) = max 0 (60 - int n)
            \<and> sentEmails (snd (cooldownAfter env c w n)) = sentEmails (snd (sendEmailVerification env w)))
     \<and> (\<forall>n<60. resendCooldownInterval (fst (cooldownAfter env c w n)) = Some (freshHandle (timers w))
            \<and> freshHandle (timers w) \<in> set (timers (snd (cooldownAfter env c w n)))
            \<and> (\<forall>env'. resendVerificationEmail env' (cooldownAfter env c w n) = cooldownAfter env c w n))
     \<and> (\<forall>n\<ge>60. resendCooldownInterval (fst (cooldownAfter env c w n)) = None
            \<and> freshHandle (timers w) \<notin> set (timers (snd (cooldownAfter env c w n)))
            \<and> (\<forall>env' u. authCurrentUser (snd (cooldownAfter env c w n)) = Some u \<and> \<not> femailVerified u
                  \<and> sendEmailVerification_r env' = None \<longrightarrow>
                  resendCooldown (fst (resendVerificationEmail env' (cooldownAfter env c w n))) = 60
                  \<and> sentEmails (snd (resendVerificationEmail env' (cooldownAfter env c w n)))
                      = Suc (sentEmails (snd (cooldownAfter env c w n)))))"
proof (intro conjI allI impI)
  fix n :: nat
  show "resendCooldown (fst (cooldownAfter env c w n)) = max 0 (60 - int n)"
    using cooldown_states [OF idle ok, of n] by (cases "n < 60") simp_all
  show "sentEmails (snd (cooldownAfter env c w n)) = sentEmails (snd (sendEmailVerification env w))"
    using cooldown_states [OF idle ok, of n] by (cases "n < 60") simp_all
next
  fix n :: nat assume n: "n < 60"
  note st = cooldown_states(1) [OF idle ok n]
  show "resendCooldownInterval (fst (cooldownAfter env c w n)) = Some (freshHandle (timers w))"
    by (simp add: st)
  show "freshHandle (timers w) \<in> set (timers (snd (cooldownAfter env c w n)))"
    by (simp add: st)
  fix env' :: Env
  show "resendVerificationEmail env' (cooldownAfter env c w n) = cooldownAfter env c w n"
    using n by (simp add: st resend_rejected)
next
  fix n :: nat assume n: "60 \<le> n"
  note st = cooldown_states(2) [OF idle ok n]
  show "resendCooldownInterval (fst (cooldownAfter env c w n)) = None"
    by (simp add: st)
  show "freshHandle (timers w) \<notin> set (timers (snd (cooldownAfter env c w n)))"
    by (simp add: st freshHandle_fresh)
  fix env' :: Env and u :: FireUser
  assume a: "authCurrentUser (snd (cooldownAfter env c w n)) = Some u \<and> \<not> femailVerified u
                  \<and> sendEmailVerification_r env' = None"
  let ?cn = "fst (cooldownAfter env c w n)" and ?wn = "snd (cooldownAfter env c w n)"
  have send: "sendEmailVerification env' ?wn = (Inr (), ?wn\<lparr> sentEmails := Suc (sentEmails ?wn) \<rparr>)"
    using a by (intro send_dispatch) auto
  have i: "resendCooldown ?cn \<le> 0" "\<not> loading ?cn" by (simp_all add: st)
  note r = resend_accepted [OF i send]
  show "resendCooldown (fst (resendVerificationEmail env' (cooldownAfter env c w n))) = 60"
    using r by simp
  show "sentEmails (snd (resendVerificationEmail env' (cooldownAfter env c w n)))
                      = Suc (sentEmails (snd (cooldownAfter env c w n)))"
    using r by simp
qed

theorem resend_cooldown_witness:
  "resendCooldown idleComponent \<le> 0 \<and> \<not> loading idleComponent
   \<and> fst (sendEmailVerification allSucceed annSignedUp) = Inr ()
   \<and> resendCooldown (fst (cooldownAfter allSucceed idleComponent annSignedUp 0)) = 60
   \<and> resendCooldown (fst (cooldownAfter allSucceed idleComponent annSignedUp 10)) = 50
   \<and> sentEmails (snd (cooldownAfter allSucceed idleComponent annSignedUp 10)) = 2
   \<and> resendVerificationEmail allSucceed (cooldownAfter allSucceed idleComponent annSignedUp 10)
       = cooldownAfter allSucceed idleComponent annSignedUp 10
   \<and> resendCooldown (fst (cooldownAfter allSucceed idleComponent annSignedUp 60)) = 0
   \<and> resendCooldownInterval (fst (cooldownAfter allSucceed idleComponent annSignedUp 60)) = None
   \<and> resendCooldown (fst (cooldownAfter allSucceed idleComponent annSignedUp 61)) = 0
   \<and> authCurrentUser (snd (cooldownAfter allSucceed idleComponent annSignedUp 60))
       = Some (annIdentity\<lparr> fdisplayName := Some ''Ann'' \<rparr>)
   \<and> \<not> femailVerified (annIdentity\<lparr> fdisplayName := Some ''Ann'' \<rparr>)
   \<and> sendEmailVerification_r allSucceed = None
   \<and> sentEmails (snd (resendVerificationEmail allSucceed
         (cooldownAfter allSucceed idleComponent annSignedUp 60))) = 3
   \<and> resendCooldown (fst (resendVerificationEmail allSucceed
         (cooldownAfter allSucceed idleComponent annSignedUp 60))) = 60"
proof -
  have a: "resendCooldown idleComponent \<le> 0" "\<not> loading idleComponent"
    by (simp_all add: idleComponent_def)
  have s: "sendEmailVerification allSucceed annSignedUp
             = (Inr (), annSignedUp\<lparr> sentEmails := 2 \<rparr>)"
    by (simp add: sendEmailVerification_def annSignedUp_def annIdentity_def allSucceed_def)
  have b: "fst (sendEmailVerification allSucceed annSignedUp) = Inr ()" by (simp add: s)
  note t = resend_cooldown [OF a b]
  from t have t1: "\<And>n. resendCooldown (fst (cooldownAfter allSucceed idleComponent annSignedUp n)) = max 0 (60 - int n)"
    and t2: "\<And>n. sentEmails (snd (cooldownAfter allSucceed idleComponent annSignedUp n)) = 2"
    by (simp_all add: s)
  from t have t3: "\<And>n. n < 60 \<Longrightarrow> resendVerificationEmail allSucceed (cooldownAfter allSucceed idleComponent annSignedUp n)
       = cooldownAfter allSucceed idleComponent annSignedUp n"
    by blast
  from t have t4: "\<And>n. 60 \<le> n \<Longrightarrow> resendCooldownInterval (fst (cooldownAfter allSucceed idleComponent annSignedUp n)) = None"
    by blast
  have u0: "authCurrentUser annSignedUp = Some (annIdentity\<lparr> fdisplayName := Some ''Ann'' \<rparr>)"
    by (simp add: annSignedUp_def)
  have u: "authCurrentUser (snd (cooldownAfter allSucceed idleComponent annSignedUp 60))
       = Some (annIdentity\<lparr> fdisplayName := Some ''Ann'' \<rparr>)"
    using cooldown_states(2) [OF a b, of 60] u0 by (simp add: s)
  have v: "\<not> femailVerified (annIdentity\<lparr> fdisplayName := Some ''Ann'' \<rparr>)"
    "sendEmailVerification_r allSucceed = None"
    by (simp_all add: annIdentity_def allSucceed_def)
  from t u v have t5: "resendCooldown (fst (resendVerificationEmail allSucceed
         (cooldownAfter allSucceed idleComponent annSignedUp 60))) = 60
     \<and> sentEmails (snd (resendVerificationEmail allSucceed
         (cooldownAfter allSucceed idleComponent annSignedUp 60)))
       = Suc (sentEmails (snd (cooldownAfter allSucceed idleComponent annSignedUp 60)))"
    by blast
  show ?thesis
    using a b u v t1 [of 0] t1 [of 10] t1 [of 60] t1 [of 61] t2 [of 10] t2 [of 60] t3 [of 10]
      t4 [of 60] t5
    by simp
qed

text \<open>
  C1.  \<^verbatim>\<open>startEmailVerificationCheck\<close> does not look at the stored handle.
  Two calls in a row on the world after Ann's sign-up leave two scheduled
  timers; the field holds the second handle only, so a following
  \<^verbatim>\<open>stopEmailVerificationCheck\<close> leaves timer 1 scheduled.  When that timer
  fires and the provider reports verified, its callback navigates to the
  dashboard and is still scheduled afterwards.
\<close>

theorem startEmailVerificationCheck_twice:
  "timers (startEmailVerificationCheck (startEmailVerificationCheck annSignedUp)) = [2, 1]
   \<and> emailVerificationCheckInterval (startEmailVerificationCheck (startEmailVerificationCheck annSignedUp))
       = Some 2
   \<and> timers (stopEmailVerificationCheck (startEmailVerificationCheck (startEmailVerificationCheck annSignedUp)))
       = [1]
   \<and> navigations (emailVerificationCheckTick allSucceed 1
        (stopEmailVerificationCheck (startEmailVerificationCheck (startEmailVerificationCheck annSignedUp))))
       = [dashboardNav]
   \<and> timers (emailVerificationCheckTick allSucceed 1
        (stopEmailVerificationCheck (startEmailVerificationCheck (startEmailVerificationCheck annSignedUp))))
       = [1]"
  by (simp add: startEmailVerificationCheck_def stopEmailVerificationCheck_def setInterval_def
      clearInterval_def annSignedUp_def emailVerificationCheckTick_def checkEmailVerification_def
      updateDoc_def allSucceed_def annIdentity_def annRecord_def dashboardNav_def Let_def)

end
